theory Spec2Isabelle
  imports Main
begin

section \<open>Shared data: responses, emails, effects\<close>

text \<open>
  Both handlers talk to the outside world through awaited helper calls. A handler is
  modelled as a function from its configuration, the helpers it imports and the request
  to the pair of the response it produces and the list of helper calls it made, in the
  order it made them. An awaited call either resolves with a value or rejects, and a
  rejection throws at the \<open>await\<close>: the handler ends there with the exception.

  Timestamps are milliseconds since the epoch, as the value of a JavaScript \<open>Date\<close>;
  the ISO string that registration stores is represented by the instant it denotes.
  Where two objects of the source have a key of the same name, the field names here
  carry a prefix (\<open>i_\<close> for the inserted account, \<open>a_\<close> for the returned one,
  \<open>set_\<close> for the user update).
\<close>

type_synonym timestamp = int

record mail_header =
  prepared :: bool
  hvalue :: string

record email_message =
  template :: string
  mail_to :: string
  headers :: "(string \<times> mail_header) list"
  locals :: "(string \<times> string) list"

text \<open>The account row returned by the insert mutation, and what the handler reads of it.\<close>

record account_user =
  au_id :: string
  au_display_name :: string
  au_avatar_url :: string

record account_data =
  a_id :: string
  a_email :: string
  a_locale :: string
  a_user :: account_user

record UserData =
  ud_id :: string
  ud_display_name :: string
  ud_email :: string
  ud_avatar_url :: string

text \<open>
  \<open>Session\<close>: \<open>jwt_token\<close> and \<open>jwt_expires_in\<close> are nullable; \<open>refresh_token\<close> is an
  optional key, \<open>None\<close> when the object literal does not have it.
\<close>

record Session =
  jwt_token :: "string option"
  jwt_expires_in :: "int option"
  user :: UserData
  refresh_token :: "string option"

text \<open>
  The \<open>account\<close> variable of the \<open>insertAccount\<close> mutation. \<open>i_account_roles\<close> lists the
  roles of \<open>account_roles.data\<close>, each of which the source wraps as \<open>{ role }\<close>, and
  \<open>i_user\<close> is the object \<open>user.data\<close>.
\<close>

record account_input =
  i_email :: string
  i_password_hash :: "string option"
  i_ticket :: string
  i_ticket_expires_at :: timestamp
  i_active :: bool
  i_locale :: string
  i_default_role :: string
  i_account_roles :: "string list"
  i_user :: "string \<rightharpoonup> string"

text \<open>The \<open>user\<close> variable of the \<open>updateUser\<close> mutation of the email-change handler.\<close>

record user_set_input =
  set_ticket :: string
  set_ticketExpiresAt :: timestamp
  set_newEmail :: string

datatype event =
    CallIsAllowedEmail string
  | CallSelectAccountByEmail string
  | CallIsCompromisedPassword "string option"
  | CallHashPassword "string option"
  | CallInsertAccount account_input
  | CallEmailSend email_message
  | CallSetRefreshToken string
  | CallUpdateUser string user_set_input

text \<open>
  What a handler ends with: \<open>res.boom.unauthorized\<close> is status 401 and
  \<open>res.boom.badRequest\<close> status 400, \<open>res.send\<close> answers 200 with a session or a text,
  and an exception that leaves the handler is answered with a 5xx.
\<close>

datatype response =
    Boom nat string
  | SendSession Session
  | SendText string
  | Thrown string

fun is_4xx :: "response \<Rightarrow> bool" where
  "is_4xx (Boom status _) = (400 \<le> status \<and> status < 500)"
| "is_4xx _ = False"

fun is_compromised_check :: "event \<Rightarrow> bool" where
  "is_compromised_check (CallIsCompromisedPassword _) = True"
| "is_compromised_check _ = False"

text \<open>The account variables of the insert mutations in a trace, in order.\<close>

fun inserted_accounts :: "event list \<Rightarrow> account_input list" where
  "inserted_accounts [] = []"
| "inserted_accounts (CallInsertAccount a # es) = a # inserted_accounts es"
| "inserted_accounts (_ # es) = inserted_accounts es"

text \<open>The user variables of the update mutations in a trace, in order.\<close>

fun updated_users :: "event list \<Rightarrow> user_set_input list" where
  "updated_users [] = []"
| "updated_users (CallUpdateUser _ u # es) = u # updated_users es"
| "updated_users (_ # es) = updated_users es"

text \<open>The emails handed to \<open>emailClient.send\<close> in a trace, in order.\<close>

fun sent_emails :: "event list \<Rightarrow> email_message list" where
  "sent_emails [] = []"
| "sent_emails (CallEmailSend m # es) = m # sent_emails es"
| "sent_emails (_ # es) = sent_emails es"

text \<open>The outcome of an awaited call.\<close>

datatype 'a promise = Rejected string | Resolved 'a

fun resolves :: "'a promise \<Rightarrow> bool" where
  "resolves (Resolved _) = True"
| "resolves (Rejected _) = False"

text \<open>
  \<open>await p t k\<close>: the handler awaits \<open>p\<close> after the calls \<open>t\<close>; a rejection leaves the
  handler with the exception, a value is handed to the rest \<open>k\<close> of the handler.
  \<open>await_if c p t k\<close> is an await inside a guard (\<open>c && await p\<close>, or an \<open>if (c)\<close> block):
  when \<open>c\<close> is false nothing is awaited and the rest runs with \<open>None\<close>.
\<close>

definition await ::
  "'a promise \<Rightarrow> event list \<Rightarrow> ('a \<Rightarrow> response \<times> event list) \<Rightarrow> response \<times> event list" where
  "await p t k = (case p of Rejected err \<Rightarrow> (Thrown err, t) | Resolved v \<Rightarrow> k v)"

definition await_if ::
  "bool \<Rightarrow> 'a promise \<Rightarrow> event list \<Rightarrow> ('a option \<Rightarrow> response \<times> event list)
     \<Rightarrow> response \<times> event list" where
  "await_if c p t k = (if c then await p t (\<lambda>v. k (Some v)) else k None)"

text \<open>
  What precedes the random identifier in a ticket: \<open>Some p\<close> when the ticket is \<open>p\<close>
  followed by the identifier, \<open>None\<close> when the ticket does not end with the identifier.
  A ticket that carries a type tag has a non-empty such prefix.
\<close>

definition ticket_prefix :: "string \<Rightarrow> string \<Rightarrow> string option" where
  "ticket_prefix ident t =
     (let n = length t - length ident
      in if length ident \<le> length t \<and> drop n t = ident then Some (take n t) else None)"

section \<open>Registration\<close>

text \<open>
  The request body after validation: \<open>user_data\<close> and \<open>register_options\<close> default to the
  empty object. \<open>password\<close> is \<open>None\<close> when the body has none.
\<close>

record RegisterOptions =
  default_role :: "string option"
  allowed_roles :: "string list option"

record register_body =
  email :: string
  password :: "string option"
  user_data :: "string \<rightharpoonup> string"
  register_options :: RegisterOptions
  body_locale :: string

record request =
  req_headers :: "string \<rightharpoonup> string"
  req_body :: register_body

text \<open>
  The constants of \<open>@config\<close> (\<open>REGISTRATION\<close>, \<open>AUTHENTICATION\<close>, \<open>APPLICATION\<close>,
  \<open>HEADERS\<close>) and \<open>newJwtExpiry\<close> of \<open>@/jwt\<close> that the handler reads. Their values are
  not part of the handler and are parameters here.
\<close>

record config =
  ADMIN_ONLY :: bool
  ADMIN_SECRET_HEADER :: string
  HASURA_GRAPHQL_ADMIN_SECRET :: "string option"
  WHITELIST :: bool
  DEFAULT_USER_ROLE :: string
  DEFAULT_ALLOWED_USER_ROLES :: "string list"
  ALLOWED_USER_ROLES :: "string list"
  AUTO_ACTIVATE_NEW_USERS :: bool
  VERIFY_EMAILS :: bool
  EMAILS_ENABLED :: bool
  SERVER_URL :: string
  APP_URL :: string
  newJwtExpiry :: int

text \<open>
  What both handlers import: \<open>uuidv4\<close> is the identifier the generator returns in this
  invocation, \<open>now\<close> what \<open>new Date()\<close> reads, and \<open>send\<close> is \<open>emailClient.send\<close>.
\<close>

record common_helpers =
  uuidv4 :: string
  now :: timestamp
  send :: "email_message \<Rightarrow> unit promise"

text \<open>
  The helpers the registration handler imports (\<open>@/helpers\<close>, \<open>@/jwt\<close>,
  \<open>@/validation\<close>, \<open>@/request\<close>). They are parameters. The calls the source awaits give
  a promise; \<open>insertAccount\<close> resolves with the \<open>returning\<close> list of the mutation. The
  header value and the admin secret are a string or undefined, compared with \<open>!==\<close>.
\<close>

record helpers = common_helpers +
  isAllowedEmail :: "string \<Rightarrow> bool promise"
  selectAccountByEmail :: "string \<Rightarrow> account_data option promise"
  isRegularLogin :: "register_body \<Rightarrow> bool"
  isMagicLinkLogin :: "register_body \<Rightarrow> bool"
  isCompromisedPassword :: "string option \<Rightarrow> bool promise"
  hashPassword :: "string option \<Rightarrow> string promise"
  getGravatarUrl :: "string \<Rightarrow> string"
  insertAccount :: "account_input \<Rightarrow> account_data list promise"
  setRefreshToken :: "string \<Rightarrow> string promise"
  createHasuraJwt :: "account_data \<Rightarrow> string"

text \<open>
  \<open>register_options.default_role ?? REGISTRATION.DEFAULT_USER_ROLE\<close> and
  \<open>register_options.allowed_roles ?? REGISTRATION.DEFAULT_ALLOWED_USER_ROLES\<close>.
\<close>

definition defaultRole :: "config \<Rightarrow> register_body \<Rightarrow> string" where
  "defaultRole cfg body =
     (case default_role (register_options body) of Some r \<Rightarrow> r | None \<Rightarrow> DEFAULT_USER_ROLE cfg)"

definition allowedRoles :: "config \<Rightarrow> register_body \<Rightarrow> string list" where
  "allowedRoles cfg body =
     (case allowed_roles (register_options body) of Some rs \<Rightarrow> rs
      | None \<Rightarrow> DEFAULT_ALLOWED_USER_ROLES cfg)"

text \<open>
  \<open>registerAccount\<close>, statement by statement. The logger calls are left out.
  \<open>returning[0]\<close> of an empty list is \<open>undefined\<close>, and reading \<open>account.user\<close> of it
  raises a \<open>TypeError\<close>. \<open>password_hash\<close> starts as null and is assigned only inside the
  \<open>isRegularLogin\<close> block, which is what the guarded await of \<open>hashPassword\<close> yields.
\<close>

definition registerAccount :: "config \<Rightarrow> helpers \<Rightarrow> request \<Rightarrow> response \<times> event list" where
  "registerAccount cfg h req =
    (let body = req_body req in
     if ADMIN_ONLY cfg \<and> req_headers req (ADMIN_SECRET_HEADER cfg) \<noteq> HASURA_GRAPHQL_ADMIN_SECRET cfg
     then (Boom 401 ''Invalid x-admin-secret'', [])
     else
     let t1 = (if WHITELIST cfg then [CallIsAllowedEmail (email body)] else []) in
     await_if (WHITELIST cfg) (isAllowedEmail h (email body)) t1 (\<lambda>allowed.
     if allowed = Some False
     then (Boom 401 ''Email not allowed'', t1)
     else
     let t2 = t1 @ [CallSelectAccountByEmail (email body)] in
     await (selectAccountByEmail h (email body)) t2 (\<lambda>existing.
     if existing \<noteq> None
     then (Boom 400 ''Account already exists'', t2)
     else
     let ticket = uuidv4 h;
         ticket_expires_at = now h + 60 * 60 * 1000;
         t3 = t2 @ (if isRegularLogin h body
                    then [CallIsCompromisedPassword (password body)] else [])
     in
     await_if (isRegularLogin h body) (isCompromisedPassword h (password body)) t3
       (\<lambda>compromised.
     if compromised = Some True
     then (Boom 400 ''Password is too weak'', t3)
     else
     let t4 = t3 @ (if isRegularLogin h body then [CallHashPassword (password body)] else [])
     in
     await_if (isRegularLogin h body) (hashPassword h (password body)) t4
       (\<lambda>password_hash.
     let dRole = defaultRole cfg body;
         aRoles = allowedRoles cfg body
     in
     if dRole \<notin> set aRoles
     then (Boom 400 ''Default role must be part of allowed roles'', t4)
     else
     if \<not> list_all (\<lambda>role. role \<in> set (ALLOWED_USER_ROLES cfg)) aRoles
     then (Boom 400 ''Allowed roles must be a subset of ALLOWED_ROLES'', t4)
     else
     let avatarUrl = getGravatarUrl h (email body);
         account_in = \<lparr> i_email = email body,
                        i_password_hash = password_hash,
                        i_ticket = ticket,
                        i_ticket_expires_at = ticket_expires_at,
                        i_active = AUTO_ACTIVATE_NEW_USERS cfg,
                        i_locale = body_locale body,
                        i_default_role = dRole,
                        i_account_roles = aRoles,
                        i_user = [''display_name'' \<mapsto> email body, ''avatar_url'' \<mapsto> avatarUrl]
                                   ++ user_data body \<rparr>;
         t5 = t4 @ [CallInsertAccount account_in]
     in
     await (insertAccount h account_in) t5 (\<lambda>returning.
     case returning of
       [] \<Rightarrow> (Thrown ''TypeError'', t5)
     | account # _ \<Rightarrow>
       let usr = \<lparr> ud_id = au_id (a_user account),
                   ud_display_name = au_display_name (a_user account),
                   ud_email = a_email account,
                   ud_avatar_url = au_avatar_url (a_user account) \<rparr>
       in
       if \<not> AUTO_ACTIVATE_NEW_USERS cfg \<and> VERIFY_EMAILS cfg then
         if \<not> EMAILS_ENABLED cfg then (Thrown ''SMTP settings unavailable'', t5)
         else
         let display_name = (case user_data body ''display_name'' of
                               Some d \<Rightarrow> d | None \<Rightarrow> email body)
         in
         if isMagicLinkLogin h body then
           let mail = \<lparr> template = ''magic-link'',
                        mail_to = ud_email usr,
                        headers = [(''x-ticket'', \<lparr> prepared = True, hvalue = ticket \<rparr>)],
                        locals = [(''display_name'', display_name),
                                  (''token'', ticket),
                                  (''url'', SERVER_URL cfg),
                                  (''locale'', a_locale account),
                                  (''app_url'', APP_URL cfg),
                                  (''action'', ''register''),
                                  (''action_url'', ''register'')] \<rparr>;
               t6 = t5 @ [CallEmailSend mail]
           in
           await (send h mail) t6 (\<lambda>_.
             (SendSession \<lparr> jwt_token = None, jwt_expires_in = None, user = usr,
                            refresh_token = None \<rparr>, t6))
         else
           let mail = \<lparr> template = ''activate-account'',
                        mail_to = email body,
                        headers = [(''x-ticket'', \<lparr> prepared = True, hvalue = ticket \<rparr>)],
                        locals = [(''display_name'', display_name),
                                  (''ticket'', ticket),
                                  (''url'', SERVER_URL cfg),
                                  (''locale'', a_locale account)] \<rparr>;
               t6 = t5 @ [CallEmailSend mail]
           in
           await (send h mail) t6 (\<lambda>_.
             (SendSession \<lparr> jwt_token = None, jwt_expires_in = None, user = usr,
                            refresh_token = None \<rparr>, t6))
       else
         let t6 = t5 @ [CallSetRefreshToken (a_id account)] in
         await (setRefreshToken h (a_id account)) t6 (\<lambda>refresh_token_value.
           (SendSession \<lparr> jwt_token = Some (createHasuraJwt h account),
                          jwt_expires_in = Some (newJwtExpiry cfg),
                          user = usr,
                          refresh_token = Some refresh_token_value \<rparr>, t6))))))))"

section \<open>Email change\<close>

text \<open>\<open>EMAIL_TYPES\<close> of \<open>@/types\<close> and \<open>ENV\<close> of \<open>@/utils\<close>: constants, parameters here.\<close>

record email_types =
  CONFIRM_CHANGE :: string

record env =
  AUTH_SERVER_URL :: string
  AUTH_CLIENT_URL :: string
  AUTH_LOCALE_DEFAULT :: string

record ChangeOptions =
  redirectTo :: string

record change_body =
  newEmail :: string
  options :: ChangeOptions

record change_request =
  auth_userId :: string
  body :: change_body

text \<open>The fields of \<open>update_users_by_pk\<close> the handler reads; \<open>locale\<close> is nullable.\<close>

record updated_user =
  displayName :: string
  user_locale :: "string option"

text \<open>The update mutation of \<open>gqlSdk\<close>; the mail client is the shared one.\<close>

record change_helpers = common_helpers +
  updateUser :: "string \<Rightarrow> user_set_input \<Rightarrow> updated_user option promise"

text \<open>
  Modelled from the spec: \<open>generateTicketExpiresAt\<close> of \<open>@/utils\<close> is not among the
  sources. A ticket is "stored with an expiry timestamp", and the handler asks for
  \<open>60 * 60\<close> with the comment "1 hour": the result is the moment that many seconds after
  the current time.
\<close>

definition generateTicketExpiresAt :: "timestamp \<Rightarrow> int \<Rightarrow> timestamp" where
  "generateTicketExpiresAt current seconds = current + seconds * 1000"

text \<open>\<open>userEmailChange\<close>. \<open>ReasonPhrases.OK\<close> is the text \<open>OK\<close>.\<close>

definition userEmailChange ::
  "email_types \<Rightarrow> env \<Rightarrow> change_helpers \<Rightarrow> change_request \<Rightarrow> response \<times> event list" where
  "userEmailChange types e h req =
    (let new_email = newEmail (body req);
         redirect_to = redirectTo (options (body req));
         userId = auth_userId req;
         ticket = CONFIRM_CHANGE types @ '':'' @ uuidv4 h;
         ticketExpiresAt = generateTicketExpiresAt (now h) (60 * 60);
         user_in = \<lparr> set_ticket = ticket,
                     set_ticketExpiresAt = ticketExpiresAt,
                     set_newEmail = new_email \<rparr>;
         t1 = [CallUpdateUser userId user_in]
     in
     case updateUser h userId user_in of
       Rejected err \<Rightarrow> (Thrown err, t1)
     | Resolved None \<Rightarrow> (Thrown ''Unable to get user'', t1)
     | Resolved (Some usr) \<Rightarrow>
       let tmpl = ''email-confirm-change'';
           mail = \<lparr> template = tmpl,
                    mail_to = new_email,
                    headers = [(''x-ticket'', \<lparr> prepared = True, hvalue = ticket \<rparr>),
                               (''x-redirect-to'', \<lparr> prepared = True, hvalue = redirect_to \<rparr>),
                               (''x-email-template'', \<lparr> prepared = True, hvalue = tmpl \<rparr>)],
                    locals = [(''link'', AUTH_SERVER_URL e @ ''/verify?&ticket='' @ ticket
                                          @ ''&type='' @ CONFIRM_CHANGE types
                                          @ ''&redirectTo='' @ redirect_to),
                              (''displayName'', displayName usr),
                              (''ticket'', ticket),
                              (''redirectTo'', redirect_to),
                              (''locale'', (case user_locale usr of
                                             Some l \<Rightarrow> l | None \<Rightarrow> AUTH_LOCALE_DEFAULT e)),
                              (''serverUrl'', AUTH_SERVER_URL e),
                              (''clientUrl'', AUTH_CLIENT_URL e)] \<rparr>;
           t2 = t1 @ [CallEmailSend mail]
       in
       (case send h mail of
          Rejected err \<Rightarrow> (Thrown err, t2)
        | Resolved _ \<Rightarrow> (SendText ''OK'', t2)))"

section \<open>Concrete inputs\<close>

text \<open>
  A deployment that requires email verification and does not activate new users, helpers
  that accept every request, and a password registration with the default roles.
\<close>

definition example_config :: config where
  "example_config =
     \<lparr> ADMIN_ONLY = False,
       ADMIN_SECRET_HEADER = ''x-admin-secret'',
       HASURA_GRAPHQL_ADMIN_SECRET = Some ''s3cret'',
       WHITELIST = False,
       DEFAULT_USER_ROLE = ''user'',
       DEFAULT_ALLOWED_USER_ROLES = [''user'', ''me''],
       ALLOWED_USER_ROLES = [''user'', ''me'', ''editor''],
       AUTO_ACTIVATE_NEW_USERS = False,
       VERIFY_EMAILS = True,
       EMAILS_ENABLED = True,
       SERVER_URL = ''https://auth.example.com'',
       APP_URL = ''https://app.example.com'',
       newJwtExpiry = 900000 \<rparr>"

text \<open>The same deployment with new users activated automatically.\<close>

definition auto_activate_config :: config where
  "auto_activate_config = example_config \<lparr> AUTO_ACTIVATE_NEW_USERS := True \<rparr>"

definition example_helpers :: helpers where
  "example_helpers =
     \<lparr> uuidv4 = ''1c6b1e4e-52a7-4d3c-9f0a-7d2e8b9a4c11'',
       now = 1700000000000,
       send = (\<lambda>_. Resolved ()),
       isAllowedEmail = (\<lambda>_. Resolved True),
       selectAccountByEmail = (\<lambda>_. Resolved None),
       isRegularLogin = (\<lambda>b. password b \<noteq> None),
       isMagicLinkLogin = (\<lambda>b. password b = None),
       isCompromisedPassword = (\<lambda>_. Resolved False),
       hashPassword = (\<lambda>_. Resolved ''$2a$10$hash''),
       getGravatarUrl = (\<lambda>_. ''https://www.gravatar.com/avatar/0''),
       insertAccount =
         (\<lambda>a. Resolved
            [\<lparr> a_id = ''acc-1'', a_email = i_email a, a_locale = i_locale a,
               a_user = \<lparr> au_id = ''usr-1'', au_display_name = i_email a,
                          au_avatar_url = ''https://www.gravatar.com/avatar/0'' \<rparr> \<rparr>]),
       setRefreshToken = (\<lambda>_. Resolved ''refresh-1''),
       createHasuraJwt = (\<lambda>_. ''jwt-1'') \<rparr>"

definition example_body :: register_body where
  "example_body =
     \<lparr> email = ''ann@example.com'',
       password = Some ''correct horse'',
       user_data = Map.empty,
       register_options = \<lparr> default_role = None, allowed_roles = None \<rparr>,
       body_locale = ''en'' \<rparr>"

definition example_request :: request where
  "example_request = \<lparr> req_headers = Map.empty, req_body = example_body \<rparr>"

text \<open>The same registration without a password (a magic-link registration).\<close>

definition magic_link_request :: request where
  "magic_link_request =
     \<lparr> req_headers = Map.empty, req_body = example_body \<lparr> password := None \<rparr> \<rparr>"

text \<open>A registration that asks for a default role outside its allowed roles.\<close>

definition bad_default_role_request :: request where
  "bad_default_role_request =
     \<lparr> req_headers = Map.empty,
       req_body = example_body
         \<lparr> register_options := \<lparr> default_role = Some ''admin'', allowed_roles = None \<rparr> \<rparr> \<rparr>"

text \<open>A registration that asks for an allowed role the deployment does not know.\<close>

definition bad_allowed_roles_request :: request where
  "bad_allowed_roles_request =
     \<lparr> req_headers = Map.empty,
       req_body = example_body
         \<lparr> register_options :=
             \<lparr> default_role = None, allowed_roles = Some [''user'', ''root''] \<rparr> \<rparr> \<rparr>"

text \<open>A registration that breaks both role rules at once.\<close>

definition bad_roles_request :: request where
  "bad_roles_request =
     \<lparr> req_headers = Map.empty,
       req_body = example_body
         \<lparr> register_options :=
             \<lparr> default_role = Some ''admin'', allowed_roles = Some [''user'', ''root''] \<rparr> \<rparr> \<rparr>"

text \<open>Helpers for which the email already has an account.\<close>

definition existing_account :: account_data where
  "existing_account =
     \<lparr> a_id = ''acc-0'', a_email = ''ann@example.com'', a_locale = ''en'',
       a_user = \<lparr> au_id = ''usr-0'', au_display_name = ''ann@example.com'',
                  au_avatar_url = ''https://www.gravatar.com/avatar/0'' \<rparr> \<rparr>"

definition existing_account_helpers :: helpers where
  "existing_account_helpers =
     example_helpers \<lparr> selectAccountByEmail := (\<lambda>_. Resolved (Some existing_account)) \<rparr>"

text \<open>
  Helpers whose account lookup rejects, helpers whose password hashing rejects, and
  helpers for which the email has an account while the whitelist lookup rejects.
\<close>

definition lookup_down_helpers :: helpers where
  "lookup_down_helpers =
     example_helpers \<lparr> selectAccountByEmail := (\<lambda>_. Rejected ''connect ECONNREFUSED'') \<rparr>"

definition hashing_down_helpers :: helpers where
  "hashing_down_helpers =
     example_helpers \<lparr> hashPassword := (\<lambda>_. Rejected ''hash failed'') \<rparr>"

definition whitelist_down_helpers :: helpers where
  "whitelist_down_helpers =
     existing_account_helpers \<lparr> isAllowedEmail := (\<lambda>_. Rejected ''connect ECONNREFUSED'') \<rparr>"

text \<open>Deployments that register by admin secret only, and with an email whitelist.\<close>

definition admin_only_config :: config where
  "admin_only_config = example_config \<lparr> ADMIN_ONLY := True \<rparr>"

definition whitelist_config :: config where
  "whitelist_config = example_config \<lparr> WHITELIST := True \<rparr>"

text \<open>An email-change request of a signed-in user, and helpers that let it through.\<close>

definition example_types :: email_types where
  "example_types = \<lparr> CONFIRM_CHANGE = ''emailConfirmChange'' \<rparr>"

definition example_env :: env where
  "example_env =
     \<lparr> AUTH_SERVER_URL = ''https://auth.example.com'',
       AUTH_CLIENT_URL = ''https://app.example.com'',
       AUTH_LOCALE_DEFAULT = ''en'' \<rparr>"

definition example_change_helpers :: change_helpers where
  "example_change_helpers =
     \<lparr> uuidv4 = ''1c6b1e4e-52a7-4d3c-9f0a-7d2e8b9a4c11'',
       now = 1700000000000,
       send = (\<lambda>_. Resolved ()),
       updateUser = (\<lambda>_ _. Resolved (Some \<lparr> displayName = ''Ann'', user_locale = None \<rparr>)) \<rparr>"

definition missing_user_helpers :: change_helpers where
  "missing_user_helpers = example_change_helpers \<lparr> updateUser := (\<lambda>_ _. Resolved None) \<rparr>"

definition example_change_request :: change_request where
  "example_change_request =
     \<lparr> auth_userId = ''usr-1'',
       body = \<lparr> newEmail = ''ann@new.example.com'',
                options = \<lparr> redirectTo = ''https://app.example.com/profile'' \<rparr> \<rparr> \<rparr>"

section \<open>Properties\<close>

subsection \<open>Auxiliary facts\<close>

lemma inserted_accounts_append:
  "inserted_accounts (xs @ ys) = inserted_accounts xs @ inserted_accounts ys"
  by (induction xs rule: inserted_accounts.induct) simp_all

lemma sent_emails_append:
  "sent_emails (xs @ ys) = sent_emails xs @ sent_emails ys"
  by (induction xs rule: sent_emails.induct) simp_all

lemma updated_users_append:
  "updated_users (xs @ ys) = updated_users xs @ updated_users ys"
  by (induction xs rule: updated_users.induct) simp_all

lemma ticket_prefix_append: "ticket_prefix ident (p @ ident) = Some p"
  by (simp add: ticket_prefix_def)

lemmas trace_simps = inserted_accounts_append sent_emails_append updated_users_append

lemmas registerAccount_unfold = registerAccount_def await_def await_if_def Let_def

lemmas registration_examples = example_config_def example_helpers_def example_body_def
  example_request_def magic_link_request_def bad_default_role_request_def
  bad_allowed_roles_request_def bad_roles_request_def existing_account_def
  existing_account_helpers_def lookup_down_helpers_def hashing_down_helpers_def
  whitelist_down_helpers_def admin_only_config_def whitelist_config_def
  registerAccount_def await_def await_if_def defaultRole_def allowedRoles_def

lemma resolves_iff: "resolves p \<longleftrightarrow> (\<exists>v. p = Resolved v)"
  by (cases p) simp_all

lemmas change_examples = example_types_def example_env_def example_change_helpers_def
  missing_user_helpers_def example_change_request_def userEmailChange_def
  generateTicketExpiresAt_def

text \<open>The update mutation is the first call of every email-change invocation.\<close>

lemma userEmailChange_updated:
  "updated_users (snd (userEmailChange types e h req)) =
     [\<lparr> set_ticket = CONFIRM_CHANGE types @ '':'' @ uuidv4 h,
        set_ticketExpiresAt = now h + 3600000,
        set_newEmail = newEmail (body req) \<rparr>]"
  by (simp add: userEmailChange_def generateTicketExpiresAt_def Let_def trace_simps
      split: promise.splits option.splits)

text \<open>What a registration stores when it inserts an account.\<close>

lemma registerAccount_inserted:
  assumes "a \<in> set (inserted_accounts (snd (registerAccount cfg h req)))"
  shows "i_ticket a = uuidv4 h"
    and "i_ticket_expires_at a = now h + 3600000"
    and "\<not> isRegularLogin h (req_body req) \<Longrightarrow> i_password_hash a = None"
  using assms
  by (auto simp: registerAccount_unfold trace_simps
      split: if_splits list.splits promise.splits)

subsection \<open>Tickets\<close>

text \<open>
  C1, as the code has it. Every email-change invocation stores a ticket that is the
  \<open>CONFIRM_CHANGE\<close> type tag, a colon and the generated identifier, so what precedes the
  identifier is the tag and the colon. A registration that inserts an account stores the
  generated identifier itself: nothing precedes it.
\<close>

theorem ticket_type_tag:
  "map set_ticket (updated_users (snd (userEmailChange types e ch creq)))
     = [CONFIRM_CHANGE types @ '':'' @ uuidv4 ch]
   \<and> map (ticket_prefix (uuidv4 ch) \<circ> set_ticket)
         (updated_users (snd (userEmailChange types e ch creq)))
     = [Some (CONFIRM_CHANGE types @ '':'')]
   \<and> (\<forall>a \<in> set (inserted_accounts (snd (registerAccount cfg h req))).
         i_ticket a = uuidv4 h \<and> ticket_prefix (uuidv4 h) (i_ticket a) = Some [])"
proof -
  have "ticket_prefix (uuidv4 ch) (CONFIRM_CHANGE types @ '':'' @ uuidv4 ch)
          = Some (CONFIRM_CHANGE types @ '':'')"
    using ticket_prefix_append [of "uuidv4 ch" "CONFIRM_CHANGE types @ '':''"] by simp
  moreover have "ticket_prefix (uuidv4 h) (uuidv4 h) = Some []"
    using ticket_prefix_append [of "uuidv4 h" "[]"] by simp
  ultimately show ?thesis
    by (simp add: userEmailChange_updated registerAccount_inserted(1))
qed

theorem ticket_type_tag_witness:
  "map i_ticket
     (inserted_accounts (snd (registerAccount example_config example_helpers example_request)))
     = [''1c6b1e4e-52a7-4d3c-9f0a-7d2e8b9a4c11'']
   \<and> map set_ticket
       (updated_users (snd (userEmailChange example_types example_env example_change_helpers
                              example_change_request)))
     = [''emailConfirmChange:1c6b1e4e-52a7-4d3c-9f0a-7d2e8b9a4c11'']"
  using ticket_type_tag [of example_types example_env example_change_helpers
      example_change_request example_config example_helpers example_request]
  by (simp add: registration_examples change_examples Let_def)

text \<open>
  C1, as the spec states it, fails for registration: the ticket stored for the
  magic-link registration is the bare identifier, with the empty string before it.
\<close>

theorem registration_ticket_untagged_counterexample:
  "map i_ticket
     (inserted_accounts (snd (registerAccount example_config example_helpers
                                magic_link_request)))
     = [uuidv4 example_helpers]
   \<and> map (ticket_prefix (uuidv4 example_helpers) \<circ> i_ticket)
       (inserted_accounts (snd (registerAccount example_config example_helpers
                                  magic_link_request)))
     = [Some []]"
  by (simp add: registration_examples ticket_prefix_def Let_def)

text \<open>
  C2. Each mutation that stores a ticket stores its expiry with it, and the expiry is
  3600000 ms, that is 60 minutes, after the clock reading of the invocation: in the
  account a registration inserts, and in the user update of every email change.
\<close>

theorem ticket_expires_after_one_hour:
  "(\<forall>a \<in> set (inserted_accounts (snd (registerAccount cfg h req))).
      i_ticket a = uuidv4 h \<and> i_ticket_expires_at a = now h + 60 * 60000)
   \<and> map (\<lambda>u. (set_ticket u, set_ticketExpiresAt u))
         (updated_users (snd (userEmailChange types e ch creq)))
     = [(CONFIRM_CHANGE types @ '':'' @ uuidv4 ch, now ch + 60 * 60000)]"
  by (simp add: userEmailChange_updated registerAccount_inserted(1,2))

theorem ticket_expires_after_one_hour_witness:
  "map (\<lambda>a. i_ticket_expires_at a - now example_helpers)
     (inserted_accounts (snd (registerAccount example_config example_helpers example_request)))
     = [3600000]
   \<and> map (\<lambda>u. set_ticketExpiresAt u - now example_change_helpers)
       (updated_users (snd (userEmailChange example_types example_env example_change_helpers
                              example_change_request)))
     = [3600000]"
  using ticket_expires_after_one_hour [of example_config example_helpers example_request
      example_types example_env example_change_helpers example_change_request]
  by (simp add: registration_examples change_examples Let_def)

subsection \<open>Registration: role validation\<close>

text \<open>
  C3, as the code has it. A registration whose resolved default role is not among its
  resolved allowed roles inserts no account. If the helper calls that precede the role
  check resolve, the response is a 4xx. If moreover none of the earlier checks rejects
  (admin secret, whitelist, existing account, compromised password), the response is
  400 "Default role must be part of allowed roles".
\<close>

theorem registerAccount_rejects_default_role:
  assumes "defaultRole cfg (req_body req) \<notin> set (allowedRoles cfg (req_body req))"
  shows "inserted_accounts (snd (registerAccount cfg h req)) = []
    \<and> ((WHITELIST cfg \<longrightarrow> resolves (isAllowedEmail h (email (req_body req))))
        \<and> resolves (selectAccountByEmail h (email (req_body req)))
        \<and> (isRegularLogin h (req_body req) \<longrightarrow>
              resolves (isCompromisedPassword h (password (req_body req)))
              \<and> resolves (hashPassword h (password (req_body req))))
        \<longrightarrow> is_4xx (fst (registerAccount cfg h req)))
    \<and> ((ADMIN_ONLY cfg \<longrightarrow>
           req_headers req (ADMIN_SECRET_HEADER cfg) = HASURA_GRAPHQL_ADMIN_SECRET cfg)
        \<and> (WHITELIST cfg \<longrightarrow> isAllowedEmail h (email (req_body req)) = Resolved True)
        \<and> selectAccountByEmail h (email (req_body req)) = Resolved None
        \<and> (isRegularLogin h (req_body req) \<longrightarrow>
              isCompromisedPassword h (password (req_body req)) = Resolved False
              \<and> resolves (hashPassword h (password (req_body req))))
        \<longrightarrow> fst (registerAccount cfg h req)
              = Boom 400 ''Default role must be part of allowed roles'')"
proof -
  have no_insert: "inserted_accounts (snd (registerAccount cfg h req)) = []"
    using assms
    by (simp add: registerAccount_unfold trace_simps split: promise.splits)
  have status: "is_4xx (fst (registerAccount cfg h req))"
    if "WHITELIST cfg \<longrightarrow> resolves (isAllowedEmail h (email (req_body req)))"
      and "resolves (selectAccountByEmail h (email (req_body req)))"
      and "isRegularLogin h (req_body req) \<longrightarrow>
              resolves (isCompromisedPassword h (password (req_body req)))
              \<and> resolves (hashPassword h (password (req_body req)))"
    using assms that
    by (auto simp: registerAccount_unfold resolves_iff)
  have message: "fst (registerAccount cfg h req)
                   = Boom 400 ''Default role must be part of allowed roles''"
    if "ADMIN_ONLY cfg \<longrightarrow>
           req_headers req (ADMIN_SECRET_HEADER cfg) = HASURA_GRAPHQL_ADMIN_SECRET cfg"
      and "WHITELIST cfg \<longrightarrow> isAllowedEmail h (email (req_body req)) = Resolved True"
      and "selectAccountByEmail h (email (req_body req)) = Resolved None"
      and "isRegularLogin h (req_body req) \<longrightarrow>
              isCompromisedPassword h (password (req_body req)) = Resolved False
              \<and> resolves (hashPassword h (password (req_body req)))"
    using assms that
    by (auto simp: registerAccount_unfold resolves_iff)
  from no_insert status message show ?thesis by blast
qed

theorem registerAccount_rejects_default_role_witness:
  "defaultRole example_config (req_body bad_default_role_request)
     \<notin> set (allowedRoles example_config (req_body bad_default_role_request))
   \<and> registerAccount example_config example_helpers bad_default_role_request
     = (Boom 400 ''Default role must be part of allowed roles'',
        [CallSelectAccountByEmail ''ann@example.com'',
         CallIsCompromisedPassword (Some ''correct horse''),
         CallHashPassword (Some ''correct horse'')])"
  using registerAccount_rejects_default_role
    [of example_config bad_default_role_request example_helpers]
  by (simp add: registration_examples Let_def)

text \<open>
  C3, as the spec states it, fails twice. A request with a bad default role whose email
  already has an account is answered "Account already exists"; and when the account
  lookup rejects, the same request ends with the exception, which is no 4xx.
\<close>

theorem registerAccount_default_role_counterexample:
  "defaultRole example_config (req_body bad_default_role_request)
     \<notin> set (allowedRoles example_config (req_body bad_default_role_request))
   \<and> fst (registerAccount example_config existing_account_helpers bad_default_role_request)
     = Boom 400 ''Account already exists''
   \<and> fst (registerAccount example_config lookup_down_helpers bad_default_role_request)
     = Thrown ''connect ECONNREFUSED''
   \<and> \<not> is_4xx (fst (registerAccount example_config lookup_down_helpers
                        bad_default_role_request))"
  by (simp add: registration_examples Let_def)

text \<open>
  C4, as the code has it. A registration whose resolved allowed roles are not all among
  \<open>REGISTRATION.ALLOWED_USER_ROLES\<close> inserts no account. If the helper calls that precede
  the role checks resolve, the response is a 4xx. If moreover none of the earlier checks
  rejects and the default role is among the allowed roles, the response is 400
  "Allowed roles must be a subset of ALLOWED_ROLES".
\<close>

theorem registerAccount_rejects_allowed_roles:
  assumes "\<not> set (allowedRoles cfg (req_body req)) \<subseteq> set (ALLOWED_USER_ROLES cfg)"
  shows "inserted_accounts (snd (registerAccount cfg h req)) = []
    \<and> ((WHITELIST cfg \<longrightarrow> resolves (isAllowedEmail h (email (req_body req))))
        \<and> resolves (selectAccountByEmail h (email (req_body req)))
        \<and> (isRegularLogin h (req_body req) \<longrightarrow>
              resolves (isCompromisedPassword h (password (req_body req)))
              \<and> resolves (hashPassword h (password (req_body req))))
        \<longrightarrow> is_4xx (fst (registerAccount cfg h req)))
    \<and> ((ADMIN_ONLY cfg \<longrightarrow>
           req_headers req (ADMIN_SECRET_HEADER cfg) = HASURA_GRAPHQL_ADMIN_SECRET cfg)
        \<and> (WHITELIST cfg \<longrightarrow> isAllowedEmail h (email (req_body req)) = Resolved True)
        \<and> selectAccountByEmail h (email (req_body req)) = Resolved None
        \<and> (isRegularLogin h (req_body req) \<longrightarrow>
              isCompromisedPassword h (password (req_body req)) = Resolved False
              \<and> resolves (hashPassword h (password (req_body req))))
        \<and> defaultRole cfg (req_body req) \<in> set (allowedRoles cfg (req_body req))
        \<longrightarrow> fst (registerAccount cfg h req)
              = Boom 400 ''Allowed roles must be a subset of ALLOWED_ROLES'')"
proof -
  from assms
  have bad: "\<not> list_all (\<lambda>role. role \<in> set (ALLOWED_USER_ROLES cfg))
                 (allowedRoles cfg (req_body req))"
    by (auto simp: list_all_iff)
  have no_insert: "inserted_accounts (snd (registerAccount cfg h req)) = []"
    using bad
    by (simp add: registerAccount_unfold trace_simps split: promise.splits)
  have status: "is_4xx (fst (registerAccount cfg h req))"
    if "WHITELIST cfg \<longrightarrow> resolves (isAllowedEmail h (email (req_body req)))"
      and "resolves (selectAccountByEmail h (email (req_body req)))"
      and "isRegularLogin h (req_body req) \<longrightarrow>
              resolves (isCompromisedPassword h (password (req_body req)))
              \<and> resolves (hashPassword h (password (req_body req)))"
    using bad that
    by (auto simp: registerAccount_unfold resolves_iff)
  have message: "fst (registerAccount cfg h req)
                   = Boom 400 ''Allowed roles must be a subset of ALLOWED_ROLES''"
    if "ADMIN_ONLY cfg \<longrightarrow>
           req_headers req (ADMIN_SECRET_HEADER cfg) = HASURA_GRAPHQL_ADMIN_SECRET cfg"
      and "WHITELIST cfg \<longrightarrow> isAllowedEmail h (email (req_body req)) = Resolved True"
      and "selectAccountByEmail h (email (req_body req)) = Resolved None"
      and "isRegularLogin h (req_body req) \<longrightarrow>
              isCompromisedPassword h (password (req_body req)) = Resolved False
              \<and> resolves (hashPassword h (password (req_body req)))"
      and "defaultRole cfg (req_body req) \<in> set (allowedRoles cfg (req_body req))"
    using bad that
    by (auto simp: registerAccount_unfold resolves_iff)
  from no_insert status message show ?thesis by blast
qed

theorem registerAccount_rejects_allowed_roles_witness:
  "\<not> set (allowedRoles example_config (req_body bad_allowed_roles_request))
       \<subseteq> set (ALLOWED_USER_ROLES example_config)
   \<and> registerAccount example_config example_helpers bad_allowed_roles_request
     = (Boom 400 ''Allowed roles must be a subset of ALLOWED_ROLES'',
        [CallSelectAccountByEmail ''ann@example.com'',
         CallIsCompromisedPassword (Some ''correct horse''),
         CallHashPassword (Some ''correct horse'')])"
  using registerAccount_rejects_allowed_roles
    [of example_config bad_allowed_roles_request example_helpers]
  by (simp add: registration_examples Let_def)

text \<open>
  C4, as the spec states it, fails twice. A request that breaks both role rules is
  answered with the default-role message, which the handler checks first; and when the
  password hashing rejects, a request with a bad allowed role ends with the exception,
  which is no 4xx.
\<close>

theorem registerAccount_allowed_roles_counterexample:
  "\<not> set (allowedRoles example_config (req_body bad_roles_request))
       \<subseteq> set (ALLOWED_USER_ROLES example_config)
   \<and> fst (registerAccount example_config example_helpers bad_roles_request)
     = Boom 400 ''Default role must be part of allowed roles''
   \<and> \<not> set (allowedRoles example_config (req_body bad_allowed_roles_request))
       \<subseteq> set (ALLOWED_USER_ROLES example_config)
   \<and> fst (registerAccount example_config hashing_down_helpers bad_allowed_roles_request)
     = Thrown ''hash failed''
   \<and> \<not> is_4xx (fst (registerAccount example_config hashing_down_helpers
                        bad_allowed_roles_request))"
  by (simp add: registration_examples Let_def)

subsection \<open>Registration: existing account\<close>

text \<open>
  C6, as the code has it. When \<open>selectAccountByEmail\<close> returns an account for the email
  of the request, no account is inserted (which is how a ticket is stored) and no email
  is sent. If the whitelist lookup resolves, the response is a 4xx. If the admin-secret
  and whitelist checks let the request through, so that the handler reaches the account
  lookup, the response is 400 "Account already exists" and the lookup is its last call.
\<close>

theorem registerAccount_existing_account:
  assumes "selectAccountByEmail h (email (req_body req)) = Resolved (Some acc)"
  shows "inserted_accounts (snd (registerAccount cfg h req)) = []
    \<and> sent_emails (snd (registerAccount cfg h req)) = []
    \<and> ((WHITELIST cfg \<longrightarrow> resolves (isAllowedEmail h (email (req_body req))))
        \<longrightarrow> is_4xx (fst (registerAccount cfg h req)))
    \<and> ((ADMIN_ONLY cfg \<longrightarrow>
           req_headers req (ADMIN_SECRET_HEADER cfg) = HASURA_GRAPHQL_ADMIN_SECRET cfg)
        \<and> (WHITELIST cfg \<longrightarrow> isAllowedEmail h (email (req_body req)) = Resolved True)
        \<longrightarrow> registerAccount cfg h req
              = (Boom 400 ''Account already exists'',
                 (if WHITELIST cfg then [CallIsAllowedEmail (email (req_body req))] else [])
                 @ [CallSelectAccountByEmail (email (req_body req))]))"
  using assms
  by (auto simp: registerAccount_unfold trace_simps resolves_iff split: promise.splits)

theorem registerAccount_existing_account_witness:
  "selectAccountByEmail existing_account_helpers (email (req_body example_request))
     = Resolved (Some existing_account)
   \<and> registerAccount example_config existing_account_helpers example_request
     = (Boom 400 ''Account already exists'', [CallSelectAccountByEmail ''ann@example.com''])"
  using registerAccount_existing_account
    [of existing_account_helpers example_request existing_account example_config]
  by (simp add: registration_examples Let_def)

text \<open>
  C6, as the spec states it, fails twice. In a deployment that registers by admin secret
  only, a request without the secret whose email has an account is answered
  "Invalid x-admin-secret"; and in a deployment with a whitelist whose lookup rejects,
  the request ends with the exception, which is no 4xx.
\<close>

theorem registerAccount_existing_account_counterexample:
  "selectAccountByEmail existing_account_helpers (email (req_body example_request))
     = Resolved (Some existing_account)
   \<and> registerAccount admin_only_config existing_account_helpers example_request
     = (Boom 401 ''Invalid x-admin-secret'', [])
   \<and> selectAccountByEmail whitelist_down_helpers (email (req_body example_request))
     = Resolved (Some existing_account)
   \<and> registerAccount whitelist_config whitelist_down_helpers example_request
     = (Thrown ''connect ECONNREFUSED'', [CallIsAllowedEmail ''ann@example.com''])"
  by (simp add: registration_examples Let_def)

subsection \<open>Registration: the session\<close>

text \<open>
  C5. When a registration answers with a session: if new users are activated
  automatically or emails need no verification, the session has a JWT, the JWT expiry
  and a refresh token; if emails need verification and new users are not activated
  automatically, \<open>jwt_token\<close> and \<open>jwt_expires_in\<close> are null and the session has no
  refresh token.
\<close>

theorem registerAccount_session:
  assumes "fst (registerAccount cfg h req) = SendSession s"
  shows "(AUTO_ACTIVATE_NEW_USERS cfg \<or> \<not> VERIFY_EMAILS cfg \<longrightarrow>
            jwt_token s \<noteq> None \<and> jwt_expires_in s = Some (newJwtExpiry cfg)
            \<and> refresh_token s \<noteq> None)
       \<and> (\<not> AUTO_ACTIVATE_NEW_USERS cfg \<and> VERIFY_EMAILS cfg \<longrightarrow>
            jwt_token s = None \<and> jwt_expires_in s = None \<and> refresh_token s = None)"
  using assms
  by (auto simp: registerAccount_unfold split: if_splits list.splits promise.splits)

theorem registerAccount_session_witness:
  "fst (registerAccount auto_activate_config example_helpers example_request)
     = SendSession \<lparr> jwt_token = Some ''jwt-1'', jwt_expires_in = Some 900000,
                      user = \<lparr> ud_id = ''usr-1'', ud_display_name = ''ann@example.com'',
                               ud_email = ''ann@example.com'',
                               ud_avatar_url = ''https://www.gravatar.com/avatar/0'' \<rparr>,
                      refresh_token = Some ''refresh-1'' \<rparr>
   \<and> fst (registerAccount example_config example_helpers example_request)
     = SendSession \<lparr> jwt_token = None, jwt_expires_in = None,
                      user = \<lparr> ud_id = ''usr-1'', ud_display_name = ''ann@example.com'',
                               ud_email = ''ann@example.com'',
                               ud_avatar_url = ''https://www.gravatar.com/avatar/0'' \<rparr>,
                      refresh_token = None \<rparr>"
  (is "?activated \<and> ?unverified")
proof -
  have activated: ?activated
    by (simp add: registration_examples auto_activate_config_def Let_def)
  have unverified: ?unverified
    by (simp add: registration_examples Let_def)
  from registerAccount_session [OF activated] registerAccount_session [OF unverified]
    activated unverified
  show ?thesis by simp
qed

subsection \<open>Registration: passwords\<close>

text \<open>
  C9. For a registration that is not a regular (password) login, every account inserted
  has a null \<open>password_hash\<close>, \<open>isCompromisedPassword\<close> is not called, and the response is
  not the rejection "Password is too weak".
\<close>

theorem registerAccount_without_password:
  assumes "\<not> isRegularLogin h (req_body req)"
  shows "(\<forall>a \<in> set (inserted_accounts (snd (registerAccount cfg h req))).
            i_password_hash a = None)
       \<and> \<not> list_ex is_compromised_check (snd (registerAccount cfg h req))
       \<and> fst (registerAccount cfg h req) \<noteq> Boom 400 ''Password is too weak''"
proof -
  have "\<forall>a \<in> set (inserted_accounts (snd (registerAccount cfg h req))).
          i_password_hash a = None"
    using assms registerAccount_inserted(3) [of _ cfg h req] by blast
  moreover have "\<not> list_ex is_compromised_check (snd (registerAccount cfg h req))"
    using assms
    by (simp add: registerAccount_unfold split: list.splits promise.splits)
  moreover have "fst (registerAccount cfg h req) \<noteq> Boom 400 ''Password is too weak''"
    using assms
    by (simp add: registerAccount_unfold split: list.splits promise.splits)
  ultimately show ?thesis by blast
qed

theorem registerAccount_without_password_witness:
  "\<not> isRegularLogin example_helpers (req_body magic_link_request)
   \<and> map i_password_hash
       (inserted_accounts (snd (registerAccount example_config example_helpers
                                  magic_link_request)))
     = [None]
   \<and> \<not> list_ex is_compromised_check
         (snd (registerAccount example_config example_helpers magic_link_request))"
  using registerAccount_without_password [of example_helpers magic_link_request example_config]
  by (simp add: registration_examples Let_def)

subsection \<open>Email change\<close>

text \<open>
  C7. The handler first calls the update mutation. If that call returns no user, the
  handler throws "Unable to get user" and hands no email to the mail client. If the
  handler answers OK, the update resolved with a user and the single email it then sent
  resolved too.
\<close>

theorem userEmailChange_missing_user:
  "\<exists>uin es. snd (userEmailChange types e h req) = CallUpdateUser (auth_userId req) uin # es
     \<and> (updateUser h (auth_userId req) uin = Resolved None \<longrightarrow>
          fst (userEmailChange types e h req) = Thrown ''Unable to get user''
          \<and> sent_emails (snd (userEmailChange types e h req)) = [])
     \<and> (fst (userEmailChange types e h req) = SendText ''OK'' \<longrightarrow>
          (\<exists>usr m. updateUser h (auth_userId req) uin = Resolved (Some usr)
             \<and> es = [CallEmailSend m] \<and> send h m = Resolved ()))"
  by (simp add: userEmailChange_def Let_def split: promise.splits option.splits)

theorem userEmailChange_missing_user_witness:
  "fst (userEmailChange example_types example_env missing_user_helpers example_change_request)
     = Thrown ''Unable to get user''
   \<and> sent_emails
       (snd (userEmailChange example_types example_env missing_user_helpers
               example_change_request)) = []
   \<and> fst (userEmailChange example_types example_env example_change_helpers
            example_change_request) = SendText ''OK''
   \<and> length (sent_emails
       (snd (userEmailChange example_types example_env example_change_helpers
               example_change_request))) = 1"
  using userEmailChange_missing_user
      [of example_types example_env missing_user_helpers example_change_request]
    userEmailChange_missing_user
      [of example_types example_env example_change_helpers example_change_request]
  by (simp add: change_examples Let_def)

text \<open>
  C8. When an email change answers OK, one ticket was stored by the update mutation and
  one email was sent, and that same ticket is the value of the email's \<open>x-ticket\<close>
  header, the \<open>ticket\<close> local, and the \<open>ticket\<close> parameter of its verification link.
\<close>

theorem userEmailChange_same_ticket:
  assumes "fst (userEmailChange types e h req) = SendText ''OK''"
  shows "\<exists>t m. map set_ticket (updated_users (snd (userEmailChange types e h req))) = [t]
     \<and> sent_emails (snd (userEmailChange types e h req)) = [m]
     \<and> map_of (headers m) ''x-ticket'' = Some \<lparr> prepared = True, hvalue = t \<rparr>
     \<and> map_of (locals m) ''ticket'' = Some t
     \<and> map_of (locals m) ''link''
         = Some (AUTH_SERVER_URL e @ ''/verify?&ticket='' @ t @ ''&type=''
                 @ CONFIRM_CHANGE types @ ''&redirectTo='' @ redirectTo (options (body req)))"
  using assms
  by (simp add: userEmailChange_def Let_def split: promise.splits option.splits)

theorem userEmailChange_same_ticket_witness:
  "fst (userEmailChange example_types example_env example_change_helpers
          example_change_request) = SendText ''OK''
   \<and> map set_ticket
       (updated_users (snd (userEmailChange example_types example_env example_change_helpers
                              example_change_request)))
     = [''emailConfirmChange:1c6b1e4e-52a7-4d3c-9f0a-7d2e8b9a4c11'']
   \<and> map (\<lambda>m. (map_of (headers m) ''x-ticket'', map_of (locals m) ''link''))
       (sent_emails (snd (userEmailChange example_types example_env example_change_helpers
                            example_change_request)))
     = [(Some \<lparr> prepared = True,
                 hvalue = ''emailConfirmChange:1c6b1e4e-52a7-4d3c-9f0a-7d2e8b9a4c11'' \<rparr>,
         Some (''https://auth.example.com/verify?&ticket=''
               @ ''emailConfirmChange:1c6b1e4e-52a7-4d3c-9f0a-7d2e8b9a4c11''
               @ ''&type=emailConfirmChange&redirectTo=https://app.example.com/profile''))]"
  (is "?ok \<and> ?rest")
proof -
  have ok: ?ok by (simp add: change_examples Let_def)
  have rest: ?rest by (simp add: change_examples Let_def)
  from userEmailChange_same_ticket [OF ok] ok rest show ?thesis by simp
qed

text \<open>
  C10. When an email change answers OK, the one email it sent is addressed to the
  \<open>newEmail\<close> of the request body.
\<close>

theorem userEmailChange_mail_to_new_email:
  assumes "fst (userEmailChange types e h req) = SendText ''OK''"
  shows "map mail_to (sent_emails (snd (userEmailChange types e h req)))
           = [newEmail (body req)]"
  using assms
  by (simp add: userEmailChange_def Let_def split: promise.splits option.splits)

theorem userEmailChange_mail_to_new_email_witness:
  "fst (userEmailChange example_types example_env example_change_helpers
          example_change_request) = SendText ''OK''
   \<and> map mail_to
       (sent_emails (snd (userEmailChange example_types example_env example_change_helpers
                            example_change_request)))
     = [''ann@new.example.com'']"
  (is "?ok \<and> ?rest")
proof -
  have ok: ?ok by (simp add: change_examples Let_def)
  from userEmailChange_mail_to_new_email [OF ok] ok show ?thesis
    by (simp add: example_change_request_def)
qed

end
